theory Spec2Isabelle
  imports Main "HOL-Library.AList" "HOL-Library.Multiset"
begin

section \<open>The editor side: src/extension.ts\<close>

text \<open>
  The handlers of \<^verbatim>\<open>extension.ts\<close> act on the editor's context keys, on a diagnostics
  collection and on three event emitters. They are modelled by explicit state passing:
  each handler takes the state and returns the new one. The parser
  (\<^verbatim>\<open>parseDocument\<close>, imported from \<^verbatim>\<open>./util\<close>) is a parameter of the handlers.
\<close>

datatype OpenApiVersion = Unknown | V2 | V3

record TextDocument =
  uri :: string
  getText :: string

record TextEditor =
  document :: TextDocument

record TextDocumentChangeEvent =
  document :: TextDocument

text \<open>
  The context keys written by \<^verbatim>\<open>executeCommand("setContext", key, value)\<close>: a map
  from the key to the last value written.
\<close>

type_synonym Context = "string \<rightharpoonup> bool"

definition setContext :: "string \<Rightarrow> bool \<Rightarrow> Context \<Rightarrow> Context" where
  "setContext key v ctx = ctx(key \<mapsto> v)"

text \<open>
  The state the handlers touch. An emitter is the list of the payloads fired on it, oldest
  first; a payload component that is \<^verbatim>\<open>null\<close> in the source is \<open>None\<close>. The field
  \<open>parsed\<close> records the uri of every document handed to \<^verbatim>\<open>parseDocument\<close>.
\<close>

record ('n, 'd) ExtState =
  contextKeys :: Context
  diagnostics :: "string \<rightharpoonup> 'd list"
  didChangeTree :: "('n option \<times> TextDocumentChangeEvent option) list"
  didChangeTreeIncludingErrors :: "('n option \<times> TextDocumentChangeEvent option) list"
  didChangeEditor :: "(TextEditor option \<times> OpenApiVersion) list"
  parsed :: "string list"

text \<open>
  The result of \<^verbatim>\<open>parseDocument\<close>: the version, the node and the errors. The errors
  are tested by \<^verbatim>\<open>if (errors)\<close>: \<open>None\<close> is the falsy value (no error list),
  \<open>Some es\<close> an error list.
\<close>

type_synonym ('n, 'd) Parser = "TextDocument \<Rightarrow> OpenApiVersion \<times> 'n option \<times> 'd list option"

definition updateVersionContext :: "OpenApiVersion \<Rightarrow> Context \<Rightarrow> Context" where
  "updateVersionContext version ctx =
     (if version = V2 then
        setContext ''openapiThreeEnabled'' False (setContext ''openapiTwoEnabled'' True ctx)
      else if version = V3 then
        setContext ''openapiTwoEnabled'' False (setContext ''openapiThreeEnabled'' True ctx)
      else
        setContext ''openapiThreeEnabled'' False (setContext ''openapiTwoEnabled'' False ctx))"

definition onActiveEditorChanged ::
  "('n, 'd) Parser \<Rightarrow> TextEditor option \<Rightarrow> ('n, 'd) ExtState \<Rightarrow> ('n, 'd) ExtState" where
  "onActiveEditorChanged parseDocument editor s =
     (case editor of
        Some ed \<Rightarrow>
          (case parseDocument (TextEditor.document ed) of (version, node, errors) \<Rightarrow>
             let s1 = s\<lparr>parsed := parsed s @ [TextDocument.uri (TextEditor.document ed)],
                        contextKeys := updateVersionContext version (contextKeys s)\<rparr>;
                 s2 = (case errors of
                         Some es \<Rightarrow>
                           s1\<lparr>diagnostics := (diagnostics s1)(TextDocument.uri (TextEditor.document ed) \<mapsto> es),
                              contextKeys := setContext ''openapiErrors'' True (contextKeys s1)\<rparr>
                       | None \<Rightarrow>
                           s1\<lparr>diagnostics := (diagnostics s1)(TextDocument.uri (TextEditor.document ed) := None),
                              contextKeys := setContext ''openapiErrors'' False (contextKeys s1),
                              didChangeTree := didChangeTree s1 @ [(node, None)]\<rparr>)
             in s2\<lparr>didChangeTreeIncludingErrors :=
                      didChangeTreeIncludingErrors s2 @ [(node, None)],
                    didChangeEditor := didChangeEditor s2 @ [(Some ed, version)]\<rparr>)
      | None \<Rightarrow>
          s\<lparr>didChangeTree := didChangeTree s @ [(None, None)],
            didChangeTreeIncludingErrors := didChangeTreeIncludingErrors s @ [(None, None)],
            didChangeEditor := didChangeEditor s @ [(None, Unknown)]\<rparr>)"

text \<open>
  \<^verbatim>\<open>vscode.window.activeTextEditor\<close> is read from the environment: it is the
  argument \<open>activeEditor\<close>.
\<close>

definition isActive :: "TextEditor option \<Rightarrow> TextDocumentChangeEvent \<Rightarrow> bool" where
  "isActive activeEditor event =
     (case activeEditor of
        Some ed \<Rightarrow> TextDocument.uri (TextEditor.document ed) = TextDocument.uri (TextDocumentChangeEvent.document event)
      | None \<Rightarrow> False)"

definition onDocumentChanged ::
  "('n, 'd) Parser \<Rightarrow> TextEditor option \<Rightarrow> TextDocumentChangeEvent \<Rightarrow>
   ('n, 'd) ExtState \<Rightarrow> ('n, 'd) ExtState" where
  "onDocumentChanged parseDocument activeEditor event s =
     (if isActive activeEditor event then
        (case parseDocument (TextDocumentChangeEvent.document event) of (version, node, errors) \<Rightarrow>
           let s1 = s\<lparr>parsed := parsed s @ [TextDocument.uri (TextDocumentChangeEvent.document event)],
                      didChangeTreeIncludingErrors :=
                        didChangeTreeIncludingErrors s @ [(node, Some event)]\<rparr>
           in (case errors of
                 Some es \<Rightarrow>
                   s1\<lparr>diagnostics :=
                        (diagnostics s1)(TextDocument.uri (TextDocumentChangeEvent.document event) \<mapsto> es),
                      contextKeys := setContext ''openapiErrors'' True (contextKeys s1)\<rparr>
               | None \<Rightarrow>
                   s1\<lparr>diagnostics :=
                        (diagnostics s1)(TextDocument.uri (TextDocumentChangeEvent.document event) := None),
                      contextKeys := updateVersionContext version
                                   (setContext ''openapiErrors'' False (contextKeys s1)),
                      didChangeTree := didChangeTree s1 @ [(node, Some event)]\<rparr>))
      else s)"

text \<open>The listener registered with \<^verbatim>\<open>onDidCloseTextDocument\<close> in \<^verbatim>\<open>activate\<close>.\<close>

definition onDidCloseTextDocument :: "TextDocument \<Rightarrow> ('n, 'd) ExtState \<Rightarrow> ('n, 'd) ExtState" where
  "onDidCloseTextDocument doc s = s\<lparr>diagnostics := (diagnostics s)(TextDocument.uri doc := None)\<rparr>"

text \<open>
  \<^verbatim>\<open>updateDiagnostics\<close> of the cache-based variant of the extension: the cache entry
  carries the uri and the errors of the reparse it reports.
\<close>

record 'd CacheEntry =
  uri :: string
  errors :: "'d list option"

definition updateDiagnostics :: "'d CacheEntry \<Rightarrow> ('n, 'd) ExtState \<Rightarrow> ('n, 'd) ExtState" where
  "updateDiagnostics current s =
     (case errors current of
        Some es \<Rightarrow>
          s\<lparr>diagnostics := (diagnostics s)(CacheEntry.uri current \<mapsto> es),
            contextKeys := setContext ''openapiErrors'' True (contextKeys s)\<rparr>
      | None \<Rightarrow>
          s\<lparr>diagnostics := (diagnostics s)(CacheEntry.uri current := None),
            contextKeys := setContext ''openapiErrors'' False (contextKeys s)\<rparr>)"

section \<open>The audit side: mapping reported issues to documents\<close>

text \<open>
  \<^verbatim>\<open>findIssueLocation\<close>, \<^verbatim>\<open>processIssues\<close> and \<^verbatim>\<open>auditDocument\<close>. A failure
  of the source (a rejected promise, a property read or a destructuring of
  \<^verbatim>\<open>undefined\<close>) is a value of type \<open>error\<close>.
\<close>

datatype error = TypeError | OpenFailed string | AuditFailed

text \<open>
  Modelled from the spec: the entry type that \<^verbatim>\<open>findMapping\<close> returns is declared
  in \<^verbatim>\<open>../bundler\<close>, which is not among the files modelled here. The Mapping Table
  schema gives an entry a \<^verbatim>\<open>uri\<close> and the optional strings \<^verbatim>\<open>pointer\<close> and
  \<^verbatim>\<open>hash\<close>; an absent optional field is \<open>None\<close>. The code reads \<^verbatim>\<open>uri\<close> and
  \<^verbatim>\<open>hash\<close> only.
\<close>

record Mapping =
  uri :: string
  pointer :: "string option"
  hash :: "string option"

text \<open>
  Modelled from the spec: the issue types are declared in \<^verbatim>\<open>../types\<close>, which is
  not among the files modelled here. An input issue has a pointer, a severity, a message
  and a rule id; a resolved issue adds the document uri, the line number and the range.
\<close>

type_synonym Range = "(nat \<times> nat) \<times> (nat \<times> nat)"

record ReportedIssue =
  pointer :: string
  severity :: nat
  message :: string
  ruleId :: string

record Issue = ReportedIssue +
  documentUri :: string
  lineNo :: nat
  rangeLoc :: Range

text \<open>
  The collaborators the three functions call, which are imported from other modules and
  are parameters here: \<open>nodeFind root p\<close> is \<^verbatim>\<open>root.find(p)\<close>, a node or
  \<^verbatim>\<open>undefined\<close>; \<open>findMapping\<close> returns an entry for every pointer (the code reads
  the result without a test); \<open>audit json token\<close> is the remote call
  \<^verbatim>\<open>audit(json, apiToken.trim(), progress)\<close>; \<open>openTextDocument u\<close> is
  \<^verbatim>\<open>vscode.workspace.openTextDocument(vscode.Uri.parse(u))\<close>. The two awaited calls
  may fail.
\<close>

record ('n, 'm, 'g) Env =
  nodeFind :: "'n \<Rightarrow> string \<Rightarrow> 'n option"
  findMapping :: "'m \<Rightarrow> string \<Rightarrow> Mapping"
  getLastGoodDocumentAst :: "TextDocument \<Rightarrow> 'n"
  openTextDocument :: "string \<Rightarrow> error + TextDocument"
  getLocationByPointer :: "TextDocument \<Rightarrow> 'n \<Rightarrow> string \<Rightarrow> nat \<times> Range"
  audit :: "string \<Rightarrow> string \<Rightarrow> error + ('g \<times> ReportedIssue list)"

text \<open>
  \<^verbatim>\<open>if (mapping.hash)\<close> holds for a string that is present and not empty. When it
  does not hold the function falls off its end and returns \<^verbatim>\<open>undefined\<close>.
\<close>

definition findIssueLocation ::
  "('n, 'm, 'g) Env \<Rightarrow> string \<Rightarrow> 'n \<Rightarrow> 'm \<Rightarrow> string \<Rightarrow> (string \<times> string) option" where
  "findIssueLocation env mainUri root mappings pointer' =
     (case nodeFind env root pointer' of
        Some node \<Rightarrow> Some (mainUri, pointer')
      | None \<Rightarrow>
          (let mapping = findMapping env mappings pointer' in
           case hash mapping of
             Some h \<Rightarrow> if h \<noteq> [] then Some (Mapping.uri mapping, h) else None
           | None \<Rightarrow> None))"

text \<open>
  A JavaScript object keyed by uri strings is the list of its own properties in insertion
  order: \<open>AList.update\<close> writes a property (in place when the key exists, at the end
  otherwise) and \<open>map fst\<close> is \<^verbatim>\<open>Object.keys\<close>. The objects of these functions are
  object literals, so a read \<^verbatim>\<open>obj[key]\<close> that finds no own property goes on to
  \<^verbatim>\<open>Object.prototype\<close>: for the twelve names below it finds an inherited value,
  which is a function (for \<^verbatim>\<open>__proto__\<close> the prototype object itself), hence
  truthy, without a \<^verbatim>\<open>push\<close> method and not iterable.
\<close>

type_synonym 'v JsObject = "(string \<times> 'v) list"

datatype 'v Property = Own 'v | Inherited

definition objectPrototypeKeys :: "string list" where
  "objectPrototypeKeys =
     [''constructor'', ''__defineGetter__'', ''__defineSetter__'', ''hasOwnProperty'',
      ''__lookupGetter__'', ''__lookupSetter__'', ''isPrototypeOf'', ''propertyIsEnumerable'',
      ''toString'', ''valueOf'', ''__proto__'', ''toLocaleString'']"

definition getProperty :: "'v JsObject \<Rightarrow> string \<Rightarrow> 'v Property option" where
  "getProperty obj key =
     (case map_of obj key of
        Some v \<Rightarrow> Some (Own v)
      | None \<Rightarrow> if key \<in> set objectPrototypeKeys then Some Inherited else None)"

text \<open>
  A write \<^verbatim>\<open>obj[key] = v\<close> makes or replaces an own property. In
  \<^verbatim>\<open>processIssues\<close> and in the loading loop every write follows a read of the same key
  that found nothing or an own property; the two other writes (of \<^verbatim>\<open>issues\<close> and
  \<^verbatim>\<open>documents\<close>) use the own keys of \<^verbatim>\<open>issuesPerDocument\<close> and \<^verbatim>\<open>files\<close>,
  which are keys written that way or the main uri, the string form of the editor's uri
  object (a scheme, a colon and the rest).
\<close>

type_synonym IssueAcc = "bool JsObject \<times> ReportedIssue list JsObject \<times> ReportedIssue list"

text \<open>
  One round of the loop of \<^verbatim>\<open>processIssues\<close>. The two tests are truthiness tests; the
  push needs an own array and fails with a TypeError on anything else.
\<close>

definition processIssue ::
  "('n, 'm, 'g) Env \<Rightarrow> string \<Rightarrow> 'n \<Rightarrow> 'm \<Rightarrow> IssueAcc \<Rightarrow> ReportedIssue \<Rightarrow> error + IssueAcc" where
  "processIssue env mainUri root mappings acc issue =
     (case acc of (documentUris, issuesPerDocument, badIssues) \<Rightarrow>
        (case findIssueLocation env mainUri root mappings (ReportedIssue.pointer issue) of
           Some (uri', pointer') \<Rightarrow>
             (let issuesPerDocument1 =
                    (if getProperty issuesPerDocument uri' = None
                     then AList.update uri' [] issuesPerDocument else issuesPerDocument);
                  documentUris1 =
                    (if getProperty documentUris uri' = None \<or>
                        getProperty documentUris uri' = Some (Own False)
                     then AList.update uri' True documentUris else documentUris)
              in case getProperty issuesPerDocument1 uri' of
                   Some (Own issueList) \<Rightarrow>
                     Inr (documentUris1,
                          AList.update uri' (issueList @ [issue\<lparr>ReportedIssue.pointer := pointer'\<rparr>])
                            issuesPerDocument1,
                          badIssues)
                 | Some Inherited \<Rightarrow> Inl TypeError
                 | None \<Rightarrow> Inl TypeError)
         | None \<Rightarrow> Inr (documentUris, issuesPerDocument, badIssues @ [issue])))"

fun processLoop ::
  "('n, 'm, 'g) Env \<Rightarrow> string \<Rightarrow> 'n \<Rightarrow> 'm \<Rightarrow> IssueAcc \<Rightarrow> ReportedIssue list \<Rightarrow> error + IssueAcc" where
  "processLoop env mainUri root mappings acc [] = Inr acc"
| "processLoop env mainUri root mappings acc (issue # issues) =
     (case processIssue env mainUri root mappings acc issue of
        Inl e \<Rightarrow> Inl e
      | Inr acc' \<Rightarrow> processLoop env mainUri root mappings acc' issues)"

definition processIssues ::
  "('n, 'm, 'g) Env \<Rightarrow> TextDocument \<Rightarrow> 'm \<Rightarrow> ReportedIssue list \<Rightarrow>
   error + ('n \<times> string list \<times> ReportedIssue list JsObject \<times> ReportedIssue list)" where
  "processIssues env document' mappings issues =
     (let mainUri = TextDocument.uri document';
          root = getLastGoodDocumentAst env document'
      in case processLoop env mainUri root mappings ([(mainUri, True)], [], []) issues of
           Inl e \<Rightarrow> Inl e
         | Inr (documentUris, issuesPerDocument, badIssues) \<Rightarrow>
             Inr (root, map fst documentUris, issuesPerDocument, badIssues))"

text \<open>
  The calls that the second half of \<^verbatim>\<open>auditDocument\<close> (loading the documents and
  locating the issues) makes to its collaborators, with their arguments, in call order.
\<close>

datatype 'n Call =
  OpenTextDocument string
  | GetLastGoodDocumentAst TextDocument
  | GetLocationByPointer TextDocument 'n string

text \<open>The loop that loads the documents; \<open>calls\<close> are the calls made so far.\<close>

fun loadDocuments ::
  "('n, 'm, 'g) Env \<Rightarrow> string list \<Rightarrow> (TextDocument \<times> 'n) JsObject \<Rightarrow> 'n Call list \<Rightarrow>
   'n Call list \<times> (error + (TextDocument \<times> 'n) JsObject)" where
  "loadDocuments env [] files calls = (calls, Inr files)"
| "loadDocuments env (uri' # uris) files calls =
     (if getProperty files uri' = None then
        (case openTextDocument env uri' of
           Inl e \<Rightarrow> (calls @ [OpenTextDocument uri'], Inl e)
         | Inr document' \<Rightarrow>
             loadDocuments env uris
               (AList.update uri' (document', getLastGoodDocumentAst env document') files)
               (calls @ [OpenTextDocument uri', GetLastGoodDocumentAst document']))
      else loadDocuments env uris files calls)"

definition locate :: "('n, 'm, 'g) Env \<Rightarrow> string \<Rightarrow> TextDocument \<Rightarrow> 'n \<Rightarrow> ReportedIssue \<Rightarrow> Issue" where
  "locate env uri' document' root issue =
     (case getLocationByPointer env document' root (ReportedIssue.pointer issue) of
        (lineNo', range') \<Rightarrow>
          \<lparr>pointer = ReportedIssue.pointer issue, severity = severity issue,
           message = message issue, ruleId = ruleId issue,
           documentUri = uri', lineNo = lineNo', rangeLoc = range'\<rparr>)"

text \<open>
  The loop that locates the issues. The destructuring of \<^verbatim>\<open>files[uri]\<close> needs an own
  pair; each issue of the group is one call of \<^verbatim>\<open>getLocationByPointer\<close> with that pair.
\<close>

fun locateIssues ::
  "('n, 'm, 'g) Env \<Rightarrow> (TextDocument \<times> 'n) JsObject \<Rightarrow> ReportedIssue list JsObject \<Rightarrow>
   Issue list JsObject \<Rightarrow> 'n Call list \<Rightarrow> 'n Call list \<times> (error + Issue list JsObject)" where
  "locateIssues env files [] issues calls = (calls, Inr issues)"
| "locateIssues env files ((uri', reportedIssues) # rest) issues calls =
     (case getProperty files uri' of
        Some (Own (document', root)) \<Rightarrow>
          locateIssues env files rest
            (AList.update uri' (map (locate env uri' document' root) reportedIssues) issues)
            (calls @ map (\<lambda>issue. GetLocationByPointer document' root (ReportedIssue.pointer issue))
                       reportedIssues)
      | Some Inherited \<Rightarrow> (calls, Inl TypeError)
      | None \<Rightarrow> (calls, Inl TypeError))"

definition collectDocuments :: "(TextDocument \<times> 'n) JsObject \<Rightarrow> TextDocument JsObject" where
  "collectDocuments files =
     fold (\<lambda>(uri', (document', root)) documents. AList.update uri' document' documents) files []"

text \<open>
  \<^verbatim>\<open>auditDocument\<close> returns the calls of its second half together with its result, so
  that a run that fails still shows what it called.
\<close>

definition auditDocument ::
  "('n, 'm, 'g) Env \<Rightarrow> TextDocument \<Rightarrow> string \<Rightarrow> 'm \<Rightarrow> string \<Rightarrow>
   'n Call list \<times>
   (error + ('g \<times> Issue list JsObject \<times> TextDocument JsObject \<times> ReportedIssue list))" where
  "auditDocument env mainDocument json mappings apiToken =
     (case audit env json apiToken of
        Inl e \<Rightarrow> ([], Inl e)
      | Inr (grades, reportedIssues) \<Rightarrow>
          (case processIssues env mainDocument mappings reportedIssues of
             Inl e \<Rightarrow> ([], Inl e)
           | Inr (mainRoot, documentUris, issuesPerDocument, badIssues) \<Rightarrow>
               (case loadDocuments env documentUris
                       [(TextDocument.uri mainDocument, (mainDocument, mainRoot))] [] of
                  (calls, Inl e) \<Rightarrow> (calls, Inl e)
                | (calls, Inr files) \<Rightarrow>
                    (case locateIssues env files issuesPerDocument [] calls of
                       (calls', Inl e) \<Rightarrow> (calls', Inl e)
                     | (calls', Inr issues) \<Rightarrow>
                         (calls', Inr (grades, issues, collectDocuments files, badIssues))))))"


text \<open>
  Two shorthands for the statements below: the location \<^verbatim>\<open>processIssues\<close> computes for
  an issue, and the issue as it is pushed to its group (with the pointer of its location).
\<close>

abbreviation location ::
  "('n, 'm, 'g) Env \<Rightarrow> string \<Rightarrow> 'n \<Rightarrow> 'm \<Rightarrow> ReportedIssue \<Rightarrow> (string \<times> string) option" where
  "location env mainUri root mappings issue \<equiv>
     findIssueLocation env mainUri root mappings (ReportedIssue.pointer issue)"


text \<open>
  An issue whose location names a property inherited from \<^verbatim>\<open>Object.prototype\<close>.
\<close>

abbreviation inheritedKey ::
  "('n, 'm, 'g) Env \<Rightarrow> string \<Rightarrow> 'n \<Rightarrow> 'm \<Rightarrow> ReportedIssue \<Rightarrow> bool" where
  "inheritedKey env mainUri root mappings issue \<equiv>
     (case location env mainUri root mappings issue of
        Some (u, p) \<Rightarrow> u \<in> set objectPrototypeKeys
      | None \<Rightarrow> False)"

section \<open>Sample data\<close>

text \<open>
  A parser that rejects the text \<open>{\<close> and accepts everything else as an OpenAPI 3 document,
  and an editor state in which an OpenAPI 3 document has been shown.
\<close>

definition demoParser :: "(string, string) Parser" where
  "demoParser doc =
     (if getText doc = ''{'' then (Unknown, None, Some [''unexpected end''])
      else (V3, Some (getText doc), None))"

definition demoState :: "(string, string) ExtState" where
  "demoState =
     \<lparr>contextKeys = [''openapiThreeEnabled'' \<mapsto> True, ''openapiTwoEnabled'' \<mapsto> False],
      diagnostics = [''file:///old.json'' \<mapsto> [''stale'']],
      didChangeTree = [], didChangeTreeIncludingErrors = [], didChangeEditor = [],
      parsed = []\<rparr>"

definition brokenDoc :: TextDocument where
  "brokenDoc = \<lparr>TextDocument.uri = ''file:///api.json'', getText = ''{''\<rparr>"

definition goodDoc :: TextDocument where
  "goodDoc = \<lparr>TextDocument.uri = ''file:///pet.json'', getText = ''{}''\<rparr>"

text \<open>
  A main document whose tree holds the pointer \<open>/info\<close>, a mapping table with one entry
  that carries a hash and one that carries a pointer, and four reported issues: one in the
  main document, two copies of one behind the hash entry, and one that is nowhere.
\<close>

definition mainDoc :: TextDocument where
  "mainDoc = \<lparr>TextDocument.uri = ''file:///api.json'', getText = ''{}''\<rparr>"

definition extMapping :: Mapping where
  "extMapping = \<lparr>Mapping.uri = ''file:///pet.json'', pointer = None, hash = Some ''#/Pet''\<rparr>"

definition pointerMapping :: Mapping where
  "pointerMapping = \<lparr>Mapping.uri = ''file:///pet.json'', pointer = Some ''/Pet'', hash = None\<rparr>"

definition rootMapping :: Mapping where
  "rootMapping = \<lparr>Mapping.uri = ''file:///api.json'', pointer = None, hash = Some []\<rparr>"

definition demoMappings :: "(string \<times> Mapping) list" where
  "demoMappings = [(''/paths/pet'', extMapping), (''/paths/cat'', pointerMapping)]"

definition issueInfo :: ReportedIssue where
  "issueInfo = \<lparr>pointer = ''/info'', severity = 1, message = ''no contact'', ruleId = ''r1''\<rparr>"

definition issuePet :: ReportedIssue where
  "issuePet = \<lparr>pointer = ''/paths/pet'', severity = 3, message = ''no type'', ruleId = ''r2''\<rparr>"

definition issueLost :: ReportedIssue where
  "issueLost = \<lparr>pointer = ''/unknownField'', severity = 2, message = ''odd'', ruleId = ''r3''\<rparr>"


definition demoIssues :: "ReportedIssue list" where
  "demoIssues = [issueInfo, issuePet, issueLost, issuePet]"

definition demoEnv :: "(string list, (string \<times> Mapping) list, nat) Env" where
  "demoEnv =
     \<lparr>nodeFind = (\<lambda>root p. if p \<in> set root then Some [p] else None),
      findMapping = (\<lambda>mappings p. case map_of mappings p of Some e \<Rightarrow> e | None \<Rightarrow> rootMapping),
      getLastGoodDocumentAst =
        (\<lambda>d. if TextDocument.uri d = ''file:///api.json'' then [''/info''] else [''#/Pet'']),
      openTextDocument = (\<lambda>u. Inr \<lparr>TextDocument.uri = u, getText = ''{}''\<rparr>),
      getLocationByPointer = (\<lambda>d root p. (length p, ((length p, 0), (length p, 2)))),
      audit = (\<lambda>json token. Inr (5, demoIssues))\<rparr>"

section \<open>Properties of the editor side\<close>

lemma onDocumentChanged_parsed:
  "parsed (onDocumentChanged parseDocument activeEditor event s) =
     (if isActive activeEditor event
      then parsed s @ [TextDocument.uri (TextDocumentChangeEvent.document event)] else parsed s)"
  by (simp add: onDocumentChanged_def Let_def split: prod.splits option.splits)

lemma onDocumentChanged_incl:
  "didChangeTreeIncludingErrors (onDocumentChanged parseDocument activeEditor event s) =
     (if isActive activeEditor event
      then didChangeTreeIncludingErrors s @
             [(fst (snd (parseDocument (TextDocumentChangeEvent.document event))), Some event)]
      else didChangeTreeIncludingErrors s)"
  by (simp add: onDocumentChanged_def Let_def split: prod.splits option.splits)

lemmas ext_demo_defs = demoParser_def demoState_def brokenDoc_def goodDoc_def isActive_def

text \<open>
  C9. After \<^verbatim>\<open>updateVersionContext\<close> the key \<open>openapiTwoEnabled\<close> is true exactly for
  version 2 and the key \<open>openapiThreeEnabled\<close> exactly for version 3, whatever the keys held
  before; any other version clears both, and the two are never true together.
\<close>

theorem updateVersionContext_flags:
  "updateVersionContext v ctx ''openapiTwoEnabled'' = Some (v = V2) \<and>
   updateVersionContext v ctx ''openapiThreeEnabled'' = Some (v = V3) \<and>
   \<not> (updateVersionContext v ctx ''openapiTwoEnabled'' = Some True \<and>
      updateVersionContext v ctx ''openapiThreeEnabled'' = Some True)"
  by (cases v) (simp_all add: updateVersionContext_def setContext_def)

theorem updateVersionContext_flags_witness:
  "updateVersionContext V2 (contextKeys demoState) ''openapiTwoEnabled'' = Some True \<and>
   updateVersionContext V2 (contextKeys demoState) ''openapiThreeEnabled'' = Some False \<and>
   updateVersionContext Unknown (contextKeys demoState) ''openapiThreeEnabled'' = Some False"
  using updateVersionContext_flags [of V2 "contextKeys demoState"]
    updateVersionContext_flags [of Unknown "contextKeys demoState"]
  by simp

text \<open>
  C4. A change of the active document whose parse reports errors fires nothing on the
  valid-tree emitter and leaves the two version keys as they were, while the errors become
  the document's diagnostics; a parse without errors fires the valid-tree event and sets the
  version keys from the parsed version.
\<close>

theorem onDocumentChanged_freeze:
  assumes "isActive activeEditor event"
    and "parseDocument (TextDocumentChangeEvent.document event) = (version, node, errs)"
  shows "(errs = Some es \<longrightarrow>
            didChangeTree (onDocumentChanged parseDocument activeEditor event s) = didChangeTree s \<and>
            contextKeys (onDocumentChanged parseDocument activeEditor event s) ''openapiTwoEnabled''
              = contextKeys s ''openapiTwoEnabled'' \<and>
            contextKeys (onDocumentChanged parseDocument activeEditor event s) ''openapiThreeEnabled''
              = contextKeys s ''openapiThreeEnabled'' \<and>
            diagnostics (onDocumentChanged parseDocument activeEditor event s)
              (TextDocument.uri (TextDocumentChangeEvent.document event)) = Some es)
       \<and> (errs = None \<longrightarrow>
            didChangeTree (onDocumentChanged parseDocument activeEditor event s)
              = didChangeTree s @ [(node, Some event)] \<and>
            contextKeys (onDocumentChanged parseDocument activeEditor event s) ''openapiTwoEnabled''
              = Some (version = V2) \<and>
            contextKeys (onDocumentChanged parseDocument activeEditor event s) ''openapiThreeEnabled''
              = Some (version = V3))"
  using assms
  by (cases version) (simp_all add: onDocumentChanged_def Let_def updateVersionContext_def setContext_def)

theorem onDocumentChanged_freeze_witness:
  "didChangeTree (onDocumentChanged demoParser (Some \<lparr>TextEditor.document = brokenDoc\<rparr>)
      \<lparr>TextDocumentChangeEvent.document = brokenDoc\<rparr> demoState) = [] \<and>
   contextKeys (onDocumentChanged demoParser (Some \<lparr>TextEditor.document = brokenDoc\<rparr>)
      \<lparr>TextDocumentChangeEvent.document = brokenDoc\<rparr> demoState) ''openapiThreeEnabled'' = Some True \<and>
   diagnostics (onDocumentChanged demoParser (Some \<lparr>TextEditor.document = brokenDoc\<rparr>)
      \<lparr>TextDocumentChangeEvent.document = brokenDoc\<rparr> demoState) ''file:///api.json'' =
     Some [''unexpected end''] \<and>
   didChangeTree (onDocumentChanged demoParser (Some \<lparr>TextEditor.document = goodDoc\<rparr>)
      \<lparr>TextDocumentChangeEvent.document = goodDoc\<rparr> demoState) =
     [(Some ''{}'', Some \<lparr>TextDocumentChangeEvent.document = goodDoc\<rparr>)]"
proof -
  let ?bad = "\<lparr>TextDocumentChangeEvent.document = brokenDoc\<rparr>"
  let ?good = "\<lparr>TextDocumentChangeEvent.document = goodDoc\<rparr>"
  have a1: "isActive (Some \<lparr>TextEditor.document = brokenDoc\<rparr>) ?bad"
    by (simp add: ext_demo_defs)
  have p1: "demoParser (TextDocumentChangeEvent.document ?bad) =
      (Unknown, None, Some [''unexpected end''])"
    by (simp add: ext_demo_defs)
  have a2: "isActive (Some \<lparr>TextEditor.document = goodDoc\<rparr>) ?good"
    by (simp add: ext_demo_defs)
  have p2: "demoParser (TextDocumentChangeEvent.document ?good) = (V3, Some ''{}'', None)"
    by (simp add: ext_demo_defs)
  note onDocumentChanged_freeze
    [where parseDocument = demoParser and es = "[''unexpected end'']" and s = demoState, OF a1 p1]
  moreover note onDocumentChanged_freeze
    [where parseDocument = demoParser and es = "[]" and s = demoState, OF a2 p2]
  ultimately show ?thesis by (simp add: ext_demo_defs)
qed

text \<open>
  C5. \<^verbatim>\<open>onDocumentChanged\<close> parses the event's document, and fires on the
  emitter that includes errors, when the event's document is the active editor's document;
  otherwise it leaves the whole state as it was (no parse, no event, no diagnostics). So
  the state changes if and only if the event is for the active document.
\<close>

theorem onDocumentChanged_active_only:
  "(isActive activeEditor event \<longrightarrow>
      parsed (onDocumentChanged parseDocument activeEditor event s) =
        parsed s @ [TextDocument.uri (TextDocumentChangeEvent.document event)] \<and>
      didChangeTreeIncludingErrors (onDocumentChanged parseDocument activeEditor event s) =
        didChangeTreeIncludingErrors s @
          [(fst (snd (parseDocument (TextDocumentChangeEvent.document event))), Some event)]) \<and>
   (\<not> isActive activeEditor event \<longrightarrow> onDocumentChanged parseDocument activeEditor event s = s) \<and>
   ((onDocumentChanged parseDocument activeEditor event s \<noteq> s) = isActive activeEditor event)"
proof -
  have "onDocumentChanged parseDocument activeEditor event s \<noteq> s" if "isActive activeEditor event"
  proof
    assume "onDocumentChanged parseDocument activeEditor event s = s"
    then have "parsed (onDocumentChanged parseDocument activeEditor event s) = parsed s" by simp
    with that show False by (simp add: onDocumentChanged_parsed)
  qed
  moreover have "onDocumentChanged parseDocument activeEditor event s = s"
    if "\<not> isActive activeEditor event"
    using that by (simp add: onDocumentChanged_def)
  ultimately show ?thesis
    by (auto simp add: onDocumentChanged_parsed onDocumentChanged_incl)
qed

theorem onDocumentChanged_active_only_witness:
  "parsed (onDocumentChanged demoParser (Some \<lparr>TextEditor.document = brokenDoc\<rparr>)
      \<lparr>TextDocumentChangeEvent.document = brokenDoc\<rparr> demoState) = [''file:///api.json''] \<and>
   onDocumentChanged demoParser (Some \<lparr>TextEditor.document = goodDoc\<rparr>)
      \<lparr>TextDocumentChangeEvent.document = brokenDoc\<rparr> demoState = demoState \<and>
   onDocumentChanged demoParser None \<lparr>TextDocumentChangeEvent.document = brokenDoc\<rparr> demoState =
     demoState"
proof -
  let ?bad = "\<lparr>TextDocumentChangeEvent.document = brokenDoc\<rparr>"
  have a1: "isActive (Some \<lparr>TextEditor.document = brokenDoc\<rparr>) ?bad"
    by (simp add: ext_demo_defs)
  have a2: "\<not> isActive (Some \<lparr>TextEditor.document = goodDoc\<rparr>) ?bad"
    by (simp add: ext_demo_defs)
  have a3: "\<not> isActive None ?bad"
    by (simp add: ext_demo_defs)
  from a1 a2 a3
    onDocumentChanged_active_only [of "Some \<lparr>TextEditor.document = brokenDoc\<rparr>" ?bad demoParser demoState]
    onDocumentChanged_active_only [of "Some \<lparr>TextEditor.document = goodDoc\<rparr>" ?bad demoParser demoState]
    onDocumentChanged_active_only [of None ?bad demoParser demoState]
  show ?thesis by (simp add: brokenDoc_def demoState_def)
qed

text \<open>
  C8. Closing a document deletes its diagnostics entry. After a parse of a document (on a
  change of the active editor, on a change of the active document, or reported through a
  cache entry) the document's entry is what the parse's error value is: deleted when the
  parse reports no errors, set to the errors otherwise.
\<close>

theorem diagnostics_cleared:
  "diagnostics (onDidCloseTextDocument doc s) (TextDocument.uri doc) = None \<and>
   diagnostics (onActiveEditorChanged parseDocument (Some ed) s)
       (TextDocument.uri (TextEditor.document ed)) =
     snd (snd (parseDocument (TextEditor.document ed))) \<and>
   (isActive activeEditor event \<longrightarrow>
    diagnostics (onDocumentChanged parseDocument activeEditor event s)
        (TextDocument.uri (TextDocumentChangeEvent.document event)) =
      snd (snd (parseDocument (TextDocumentChangeEvent.document event)))) \<and>
   diagnostics (updateDiagnostics current s) (CacheEntry.uri current) = errors current"
proof (intro conjI impI)
  show "diagnostics (onDidCloseTextDocument doc s) (TextDocument.uri doc) = None"
    by (simp add: onDidCloseTextDocument_def)
  show "diagnostics (onActiveEditorChanged parseDocument (Some ed) s)
       (TextDocument.uri (TextEditor.document ed)) =
     snd (snd (parseDocument (TextEditor.document ed)))"
    by (simp add: onActiveEditorChanged_def Let_def split: prod.splits option.splits)
  show "diagnostics (updateDiagnostics current s) (CacheEntry.uri current) = errors current"
    by (simp add: updateDiagnostics_def split: option.splits)
next
  assume "isActive activeEditor event"
  then show "diagnostics (onDocumentChanged parseDocument activeEditor event s)
        (TextDocument.uri (TextDocumentChangeEvent.document event)) =
      snd (snd (parseDocument (TextDocumentChangeEvent.document event)))"
    by (simp add: onDocumentChanged_def Let_def split: prod.splits option.splits)
qed

theorem diagnostics_cleared_witness:
  "diagnostics (onDidCloseTextDocument \<lparr>TextDocument.uri = ''file:///old.json'', getText = []\<rparr>
      demoState) ''file:///old.json'' = None \<and>
   diagnostics (onDocumentChanged demoParser (Some \<lparr>TextEditor.document = brokenDoc\<rparr>)
      \<lparr>TextDocumentChangeEvent.document = brokenDoc\<rparr> demoState) ''file:///api.json'' =
     Some [''unexpected end''] \<and>
   diagnostics (onActiveEditorChanged demoParser (Some \<lparr>TextEditor.document = goodDoc\<rparr>)
      demoState) ''file:///pet.json'' = None \<and>
   diagnostics (updateDiagnostics \<lparr>CacheEntry.uri = ''file:///old.json'', errors = None\<rparr>
      demoState) ''file:///old.json'' = None"
proof -
  let ?bad = "\<lparr>TextDocumentChangeEvent.document = brokenDoc\<rparr>"
  have a1: "isActive (Some \<lparr>TextEditor.document = brokenDoc\<rparr>) ?bad"
    by (simp add: ext_demo_defs)
  from a1
    diagnostics_cleared [of "\<lparr>TextDocument.uri = ''file:///old.json'', getText = []\<rparr>" demoState
      demoParser "\<lparr>TextEditor.document = goodDoc\<rparr>"
      "Some \<lparr>TextEditor.document = brokenDoc\<rparr>" ?bad
      "\<lparr>CacheEntry.uri = ''file:///old.json'', errors = None\<rparr>"]
  show ?thesis by (simp add: demoParser_def brokenDoc_def goodDoc_def)
qed

section \<open>Properties of the issue mapping\<close>

subsection \<open>Properties of objects as property lists\<close>




lemma keys_update: "set (map fst (AList.update k v al)) = insert k (set (map fst al))"
  by (induction al) auto

lemma map_of_None_keys: "(map_of al k = None) = (k \<notin> set (map fst al))"
  by (simp add: map_of_eq_None_iff)

lemma getProperty_None:
  "(getProperty obj k = None) = (k \<notin> set (map fst obj) \<and> k \<notin> set objectPrototypeKeys)"
proof (cases "map_of obj k")
  case None
  then have "k \<notin> set (map fst obj)" by (simp add: map_of_None_keys del: set_map)
  with None show ?thesis by (simp add: getProperty_def)
next
  case (Some v)
  then have "k \<in> set (map fst obj)"
    using map_of_None_keys [of obj k] by simp
  with Some show ?thesis by (simp add: getProperty_def)
qed

lemma getProperty_Own: "(getProperty obj k = Some (Own v)) = (map_of obj k = Some v)"
  by (simp add: getProperty_def split: option.splits)


subsection \<open>One round of the issue loop\<close>

lemma processIssue_unresolved:
  "findIssueLocation env mainUri root mappings (ReportedIssue.pointer issue) = None \<Longrightarrow>
   processIssue env mainUri root mappings (documentUris, issuesPerDocument, badIssues) issue =
     Inr (documentUris, issuesPerDocument, badIssues @ [issue])"
  by (simp add: processIssue_def)

lemma processIssue_resolved:
  "findIssueLocation env mainUri root mappings (ReportedIssue.pointer issue) = Some (u, p) \<Longrightarrow>
   processIssue env mainUri root mappings (documentUris, issuesPerDocument, badIssues) issue =
     (if map_of issuesPerDocument u = None \<and> u \<in> set objectPrototypeKeys then Inl TypeError
      else Inr (if getProperty documentUris u = None \<or> getProperty documentUris u = Some (Own False)
                then AList.update u True documentUris else documentUris,
                AList.update u
                  ((case map_of issuesPerDocument u of Some g \<Rightarrow> g | None \<Rightarrow> []) @
                   [issue\<lparr>ReportedIssue.pointer := p\<rparr>])
                  issuesPerDocument,
                badIssues))"
  by (cases "map_of issuesPerDocument u")
    (simp_all add: processIssue_def Let_def getProperty_def AList.update_conv')

lemma processLoop_returns:
  "set (map fst issuesPerDocument) \<inter> set objectPrototypeKeys = {} \<Longrightarrow>
   (if list_ex (inheritedKey env mainUri root mappings) issues
    then processLoop env mainUri root mappings (documentUris, issuesPerDocument, badIssues) issues =
           Inl TypeError
    else \<exists>documentUris' issuesPerDocument'.
           processLoop env mainUri root mappings (documentUris, issuesPerDocument, badIssues) issues =
             Inr (documentUris', issuesPerDocument',
                  badIssues @ filter (\<lambda>i. location env mainUri root mappings i = None) issues))"
proof (induction issues arbitrary: documentUris issuesPerDocument badIssues)
  case Nil
  show ?case by simp
next
  case (Cons issue issues)
  show ?case
  proof (cases "location env mainUri root mappings issue")
    case None
    with Cons.IH [OF Cons.prems, of documentUris "badIssues @ [issue]"] show ?thesis
      by (auto simp add: processIssue_unresolved)
  next
    case (Some l)
    obtain u p where l: "l = (u, p)" by (cases l)
    show ?thesis
    proof (cases "u \<in> set objectPrototypeKeys")
      case True
      with Cons.prems have "map_of issuesPerDocument u = None"
        by (auto simp add: map_of_None_keys simp del: set_map)
      with True Some l show ?thesis by (simp add: processIssue_resolved)
    next
      case False
      let ?ipd = "AList.update u
          ((case map_of issuesPerDocument u of Some g \<Rightarrow> g | None \<Rightarrow> []) @
           [issue\<lparr>ReportedIssue.pointer := p\<rparr>]) issuesPerDocument"
      from False Cons.prems have "set (map fst ?ipd) \<inter> set objectPrototypeKeys = {}"
        by (simp add: keys_update del: set_map)
      from Cons.IH [OF this] False Some l show ?thesis
        by (auto simp add: processIssue_resolved)
    qed
  qed
qed

lemma processLoop_step:
  assumes "processLoop env mainUri root mappings (documentUris, issuesPerDocument, badIssues)
      (issue # issues) = Inr result"
    and "location env mainUri root mappings issue = Some (u, p)"
  shows "\<not> (map_of issuesPerDocument u = None \<and> u \<in> set objectPrototypeKeys) \<and>
    processLoop env mainUri root mappings
      (if getProperty documentUris u = None \<or> getProperty documentUris u = Some (Own False)
       then AList.update u True documentUris else documentUris,
       AList.update u
         ((case map_of issuesPerDocument u of Some g \<Rightarrow> g | None \<Rightarrow> []) @
          [issue\<lparr>ReportedIssue.pointer := p\<rparr>])
         issuesPerDocument,
       badIssues) issues = Inr result"
proof (cases "map_of issuesPerDocument u = None \<and> u \<in> set objectPrototypeKeys")
  case True
  with assms show ?thesis by (simp add: processIssue_resolved)
next
  case False
  with assms show ?thesis by (simp add: processIssue_resolved)
qed


lemma processLoop_uris:
  "processLoop env mainUri root mappings (documentUris, issuesPerDocument, badIssues) issues =
     Inr (documentUris', issuesPerDocument', badIssues') \<Longrightarrow>
   set (map fst documentUris) \<subseteq> set (map fst documentUris') \<and>
   (set (map fst issuesPerDocument) \<subseteq> set (map fst documentUris) \<and>
    set (map fst issuesPerDocument) \<inter> set objectPrototypeKeys = {} \<longrightarrow>
    set (map fst issuesPerDocument') \<subseteq> set (map fst documentUris') \<and>
    set (map fst issuesPerDocument') \<inter> set objectPrototypeKeys = {})"
proof (induction issues arbitrary: documentUris issuesPerDocument badIssues)
  case Nil
  then show ?case by simp
next
  case (Cons issue issues)
  show ?case
  proof (cases "location env mainUri root mappings issue")
    case None
    with Cons.prems have "processLoop env mainUri root mappings
        (documentUris, issuesPerDocument, badIssues @ [issue]) issues =
        Inr (documentUris', issuesPerDocument', badIssues')"
      by (simp add: processIssue_unresolved)
    from Cons.IH [OF this] show ?thesis by simp
  next
    case (Some l)
    obtain u p where l: "l = (u, p)" by (cases l)
    let ?x = "issue\<lparr>ReportedIssue.pointer := p\<rparr>"
    let ?g = "case map_of issuesPerDocument u of Some g \<Rightarrow> g | None \<Rightarrow> []"
    let ?ipd = "AList.update u (?g @ [?x]) issuesPerDocument"
    let ?du = "if getProperty documentUris u = None \<or> getProperty documentUris u = Some (Own False)
               then AList.update u True documentUris else documentUris"
    from processLoop_step [OF Cons.prems] Some l have
      ok: "\<not> (map_of issuesPerDocument u = None \<and> u \<in> set objectPrototypeKeys)" and
      run: "processLoop env mainUri root mappings (?du, ?ipd, badIssues) issues =
        Inr (documentUris', issuesPerDocument', badIssues')"
      by blast+
    from Cons.IH [OF run] have ih:
      "set (map fst ?du) \<subseteq> set (map fst documentUris')"
      "set (map fst ?ipd) \<subseteq> set (map fst ?du) \<and>
       set (map fst ?ipd) \<inter> set objectPrototypeKeys = {} \<longrightarrow>
       set (map fst issuesPerDocument') \<subseteq> set (map fst documentUris') \<and>
       set (map fst issuesPerDocument') \<inter> set objectPrototypeKeys = {}"
      by blast+
    have du: "set (map fst documentUris) \<subseteq> set (map fst ?du)"
      by (auto simp add: keys_update simp del: set_map)
    have ipd: "set (map fst ?ipd) = insert u (set (map fst issuesPerDocument))"
      by (simp add: keys_update del: set_map)
    have "set (map fst ?ipd) \<subseteq> set (map fst ?du) \<and>
        set (map fst ?ipd) \<inter> set objectPrototypeKeys = {}"
      if inv: "set (map fst issuesPerDocument) \<subseteq> set (map fst documentUris)"
        "set (map fst issuesPerDocument) \<inter> set objectPrototypeKeys = {}"
    proof -
      have fresh: "u \<notin> set objectPrototypeKeys"
      proof
        assume u: "u \<in> set objectPrototypeKeys"
        with inv(2) have "u \<notin> set (map fst issuesPerDocument)" by auto
        then have "map_of issuesPerDocument u = None" by (simp add: map_of_None_keys del: set_map)
        with u ok show False by simp
      qed
      have "u \<in> set (map fst ?du)"
      proof (cases "getProperty documentUris u = None \<or> getProperty documentUris u = Some (Own False)")
        case True
        then show ?thesis by (simp add: keys_update del: set_map)
      next
        case False
        with fresh have "u \<in> set (map fst documentUris)"
          by (simp add: getProperty_None del: set_map)
        moreover from False have "?du = documentUris" by (simp only: if_False)
        ultimately show ?thesis by (simp only:)
      qed
      with inv du ipd fresh show ?thesis by auto
    qed
    with ih du show ?thesis by blast
  qed
qed


lemma processIssues_eq:
  "processLoop env (TextDocument.uri d) (getLastGoodDocumentAst env d) mappings
      ([(TextDocument.uri d, True)], [], []) issues = Inr (du, ipd, bad) \<Longrightarrow>
   processIssues env d mappings issues = Inr (getLastGoodDocumentAst env d, map fst du, ipd, bad)"
  by (simp add: processIssues_def Let_def)

lemma processIssues_fails:
  "processLoop env (TextDocument.uri d) (getLastGoodDocumentAst env d) mappings
      ([(TextDocument.uri d, True)], [], []) issues = Inl e \<Longrightarrow>
   processIssues env d mappings issues = Inl e"
  by (simp add: processIssues_def Let_def)


lemma processIssues_root:
  "processIssues env d mappings issues = Inr (root, uris, ipd, bad) \<Longrightarrow>
   root = getLastGoodDocumentAst env d \<and>
   (\<exists>du. processLoop env (TextDocument.uri d) root mappings
            ([(TextDocument.uri d, True)], [], []) issues = Inr (du, ipd, bad) \<and>
         uris = map fst du)"
  by (auto simp add: processIssues_def Let_def split: sum.splits)

lemma processIssues_keys:
  assumes "processIssues env d mappings issues = Inr (root, uris, ipd, bad)"
  shows "TextDocument.uri d \<in> set uris \<and> set (map fst ipd) \<subseteq> set uris \<and>
    set (map fst ipd) \<inter> set objectPrototypeKeys = {}"
proof -
  from processIssues_root [OF assms] obtain du where
    run: "processLoop env (TextDocument.uri d) root mappings
            ([(TextDocument.uri d, True)], [], []) issues = Inr (du, ipd, bad)" and
    uris: "uris = map fst du"
    by blast
  from processLoop_uris [OF run] uris show ?thesis by simp
qed

lemmas audit_demo_defs = mainDoc_def extMapping_def pointerMapping_def rootMapping_def
  demoMappings_def issueInfo_def issuePet_def issueLost_def demoIssues_def demoEnv_def

lemma demo_processIssues:
  "processIssues demoEnv mainDoc demoMappings demoIssues =
     Inr ([''/info''], [''file:///api.json'', ''file:///pet.json''],
          [(''file:///api.json'', [issueInfo]),
           (''file:///pet.json'',
            [issuePet\<lparr>ReportedIssue.pointer := ''#/Pet''\<rparr>,
             issuePet\<lparr>ReportedIssue.pointer := ''#/Pet''\<rparr>])],
          [issueLost])"
  by (simp add: processIssues_def processIssue_def findIssueLocation_def getProperty_def
      objectPrototypeKeys_def Let_def audit_demo_defs)




text \<open>
  C2, as stated, fails: with the root lookup failing and a table entry that carries a uri
  and a pointer but no hash, \<^verbatim>\<open>findIssueLocation\<close> yields no location at all.
\<close>

theorem findIssueLocation_pointer_entry_counterexample:
  "nodeFind demoEnv [''/info''] ''/paths/cat'' = None \<and>
   findMapping demoEnv demoMappings ''/paths/cat'' =
     \<lparr>Mapping.uri = ''file:///pet.json'', pointer = Some ''/Pet'', hash = None\<rparr> \<and>
   findIssueLocation demoEnv ''file:///api.json'' [''/info''] demoMappings ''/paths/cat'' = None"
  by (simp add: findIssueLocation_def audit_demo_defs)

text \<open>
  C2, amended. The pointer is looked up in the root tree first; when a node is found the
  location is the main uri with the same pointer, whatever the mapping table holds. Only
  when the root lookup fails is the table consulted, and then the location is the entry's
  uri with the entry's hash when that hash is present and not empty, and there is no
  location otherwise. The entry's pointer field has no influence on the result.
\<close>

theorem findIssueLocation_order:
  "(nodeFind env root p \<noteq> None \<longrightarrow>
      findIssueLocation env mainUri root mappings p = Some (mainUri, p) \<and>
      findIssueLocation (env\<lparr>findMapping := fm\<rparr>) mainUri root mappings p = Some (mainUri, p)) \<and>
   (nodeFind env root p = None \<longrightarrow>
      findIssueLocation env mainUri root mappings p =
        (case hash (findMapping env mappings p) of
           Some h \<Rightarrow> if h \<noteq> [] then Some (Mapping.uri (findMapping env mappings p), h) else None
         | None \<Rightarrow> None)) \<and>
   findIssueLocation
      (env\<lparr>findMapping := \<lambda>m q. (findMapping env m q)\<lparr>Mapping.pointer := anyPointer\<rparr>\<rparr>)
      mainUri root mappings p =
     findIssueLocation env mainUri root mappings p"
  by (auto simp add: findIssueLocation_def Let_def split: option.splits)

theorem findIssueLocation_order_witness:
  "findIssueLocation demoEnv ''file:///api.json'' [''/info''] demoMappings ''/info'' =
     Some (''file:///api.json'', ''/info'') \<and>
   findIssueLocation demoEnv ''file:///api.json'' [''/info''] demoMappings ''/paths/pet'' =
     Some (''file:///pet.json'', ''#/Pet'')"
proof -
  have a1: "nodeFind demoEnv [''/info''] ''/info'' \<noteq> None"
    by (simp add: demoEnv_def)
  have a2: "nodeFind demoEnv [''/info''] ''/paths/pet'' = None"
    by (simp add: demoEnv_def)
  have m: "findMapping demoEnv demoMappings ''/paths/pet'' = extMapping"
    by (simp add: demoEnv_def demoMappings_def)
  from a1 a2 m
    findIssueLocation_order [of demoEnv "[''/info'']" "''/info''" "''file:///api.json''" demoMappings]
    findIssueLocation_order [of demoEnv "[''/info'']" "''/paths/pet''" "''file:///api.json''"
      demoMappings]
  show ?thesis by (simp add: extMapping_def)
qed




section \<open>Properties of the audit run\<close>



lemma loadDocuments_files:
  "loadDocuments env uris files calls = (calls', Inr files') \<Longrightarrow>
   (distinct (map fst files) \<longrightarrow> distinct (map fst files')) \<and>
   (\<forall>u e. map_of files u = Some e \<longrightarrow> map_of files' u = Some e) \<and>
   (\<forall>u d r. map_of files' u = Some (d, r) \<longrightarrow>
      map_of files u = Some (d, r) \<or>
      (map_of files u = None \<and> openTextDocument env u = Inr d \<and>
       r = getLastGoodDocumentAst env d))"
proof (induction uris arbitrary: files calls)
  case Nil
  then show ?case by simp
next
  case (Cons u uris)
  show ?case
  proof (cases "getProperty files u = None")
    case False
    with Cons.prems have "loadDocuments env uris files calls = (calls', Inr files')" by simp
    from Cons.IH [OF this] show ?thesis .
  next
    case True
    then have None: "map_of files u = None"
      by (simp add: getProperty_None map_of_None_keys del: set_map)
    show ?thesis
    proof (cases "openTextDocument env u")
      case (Inl e)
      with True Cons.prems show ?thesis by simp
    next
      case (Inr doc)
      let ?files = "AList.update u (doc, getLastGoodDocumentAst env doc) files"
      from True Inr Cons.prems obtain calls1 where run:
        "loadDocuments env uris ?files calls1 = (calls', Inr files')" by simp
      note ih = Cons.IH [OF run]
      have m: "map_of ?files = (map_of files)(u \<mapsto> (doc, getLastGoodDocumentAst env doc))"
        by (rule AList.update_conv')
      have "distinct (map fst files) \<longrightarrow> distinct (map fst files')"
        using ih by (simp add: AList.distinct_update)
      moreover have "\<forall>v e. map_of files v = Some e \<longrightarrow> map_of files' v = Some e"
        using ih m None by (metis fun_upd_apply option.distinct(1))
      moreover have "\<forall>v d r. map_of files' v = Some (d, r) \<longrightarrow>
          map_of files v = Some (d, r) \<or>
          (map_of files v = None \<and> openTextDocument env v = Inr d \<and>
           r = getLastGoodDocumentAst env d)"
      proof (intro allI impI)
        fix v d r assume "map_of files' v = Some (d, r)"
        with ih have "map_of ?files v = Some (d, r) \<or>
          (map_of ?files v = None \<and> openTextDocument env v = Inr d \<and>
           r = getLastGoodDocumentAst env d)" by blast
        then show "map_of files v = Some (d, r) \<or>
          (map_of files v = None \<and> openTextDocument env v = Inr d \<and>
           r = getLastGoodDocumentAst env d)"
          using m None Inr by (cases "v = u") auto
      qed
      ultimately show ?thesis by blast
    qed
  qed
qed





lemma collect_fold:
  "distinct (map fst files) \<Longrightarrow>
   map_of (fold (\<lambda>(u, (d, r)) documents. AList.update u d documents) files acc) k =
     (case map_of files k of Some (d, r) \<Rightarrow> Some d | None \<Rightarrow> map_of acc k)"
proof (induction files arbitrary: acc)
  case Nil
  show ?case by simp
next
  case (Cons entry files)
  obtain u d r where entry: "entry = (u, (d, r))" by (cases entry) auto
  from Cons.prems entry have fresh: "map_of files u = None" and dist: "distinct (map fst files)"
    by (simp_all add: map_of_None_keys)
  from Cons.IH [OF dist, of "AList.update u d acc"] entry fresh show ?case
    by (auto simp add: AList.update_conv' split: option.splits)
qed

lemma collectDocuments_lookup:
  "distinct (map fst files) \<Longrightarrow>
   map_of (collectDocuments files) k = map_option fst (map_of files k)"
  by (simp add: collectDocuments_def collect_fold split: option.splits)


lemma auditDocument_success:
  assumes "auditDocument env md json mappings tok = (calls, Inr (grades, issues, documents, bad))"
  shows "\<exists>reported uris ipd files calls0.
    audit env json tok = Inr (grades, reported) \<and>
    processIssues env md mappings reported = Inr (getLastGoodDocumentAst env md, uris, ipd, bad) \<and>
    loadDocuments env uris [(TextDocument.uri md, (md, getLastGoodDocumentAst env md))] [] =
      (calls0, Inr files) \<and>
    locateIssues env files ipd [] calls0 = (calls, Inr issues) \<and>
    documents = collectDocuments files"
proof -
  from assms obtain reported where a: "audit env json tok = Inr (grades, reported)"
    by (auto simp add: auditDocument_def split: sum.splits prod.splits)
  from assms a obtain root uris ipd where
    p: "processIssues env md mappings reported = Inr (root, uris, ipd, bad)"
    by (auto simp add: auditDocument_def split: sum.splits prod.splits)
  from processIssues_root [OF p] have root: "root = getLastGoodDocumentAst env md" by simp
  from assms a p obtain files calls0 where
    l: "loadDocuments env uris [(TextDocument.uri md, (md, root))] [] = (calls0, Inr files)"
    by (auto simp add: auditDocument_def split: sum.splits prod.splits)
  from assms a p l have "locateIssues env files ipd [] calls0 = (calls, Inr issues)"
    "documents = collectDocuments files"
    by (auto simp add: auditDocument_def split: sum.splits prod.splits)
  with a p l root show ?thesis by blast
qed

lemma demo_loadDocuments:
  "loadDocuments demoEnv [''file:///api.json'', ''file:///pet.json'']
      [(TextDocument.uri mainDoc, (mainDoc, [''/info'']))] [] =
     ([OpenTextDocument ''file:///pet.json'',
       GetLastGoodDocumentAst \<lparr>TextDocument.uri = ''file:///pet.json'', getText = ''{}''\<rparr>],
      Inr [(''file:///api.json'', (mainDoc, [''/info''])),
           (''file:///pet.json'',
            (\<lparr>TextDocument.uri = ''file:///pet.json'', getText = ''{}''\<rparr>, [''#/Pet'']))])"
proof -
  have u: "TextDocument.uri mainDoc = ''file:///api.json''"
    by (simp add: mainDoc_def)
  have o: "openTextDocument demoEnv ''file:///pet.json'' =
      Inr \<lparr>TextDocument.uri = ''file:///pet.json'', getText = ''{}''\<rparr>"
    by (simp add: demoEnv_def)
  have g: "getLastGoodDocumentAst demoEnv
      \<lparr>TextDocument.uri = ''file:///pet.json'', getText = ''{}''\<rparr> = [''#/Pet'']"
    by (simp add: demoEnv_def)
  show ?thesis by (simp add: u o g getProperty_def objectPrototypeKeys_def)
qed

lemma demo_locateIssues:
  "locateIssues demoEnv
      [(''file:///api.json'', (mainDoc, [''/info''])),
       (''file:///pet.json'',
        (\<lparr>TextDocument.uri = ''file:///pet.json'', getText = ''{}''\<rparr>, [''#/Pet'']))]
      [(''file:///api.json'', [issueInfo]),
       (''file:///pet.json'',
        [issuePet\<lparr>ReportedIssue.pointer := ''#/Pet''\<rparr>,
         issuePet\<lparr>ReportedIssue.pointer := ''#/Pet''\<rparr>])] [] calls =
     (calls @
      [GetLocationByPointer mainDoc [''/info''] (ReportedIssue.pointer issueInfo),
       GetLocationByPointer \<lparr>TextDocument.uri = ''file:///pet.json'', getText = ''{}''\<rparr>
         [''#/Pet''] ''#/Pet'',
       GetLocationByPointer \<lparr>TextDocument.uri = ''file:///pet.json'', getText = ''{}''\<rparr>
         [''#/Pet''] ''#/Pet''],
      Inr [(''file:///api.json'', [locate demoEnv ''file:///api.json'' mainDoc [''/info''] issueInfo]),
           (''file:///pet.json'',
            [locate demoEnv ''file:///pet.json''
               \<lparr>TextDocument.uri = ''file:///pet.json'', getText = ''{}''\<rparr> [''#/Pet'']
               (issuePet\<lparr>ReportedIssue.pointer := ''#/Pet''\<rparr>),
             locate demoEnv ''file:///pet.json''
               \<lparr>TextDocument.uri = ''file:///pet.json'', getText = ''{}''\<rparr> [''#/Pet'']
               (issuePet\<lparr>ReportedIssue.pointer := ''#/Pet''\<rparr>)])])"
  by (simp add: getProperty_def)

lemma demo_auditDocument:
  "auditDocument demoEnv mainDoc ''{}'' demoMappings ''token'' =
     ([OpenTextDocument ''file:///pet.json'',
       GetLastGoodDocumentAst \<lparr>TextDocument.uri = ''file:///pet.json'', getText = ''{}''\<rparr>,
       GetLocationByPointer mainDoc [''/info''] (ReportedIssue.pointer issueInfo),
       GetLocationByPointer \<lparr>TextDocument.uri = ''file:///pet.json'', getText = ''{}''\<rparr>
         [''#/Pet''] ''#/Pet'',
       GetLocationByPointer \<lparr>TextDocument.uri = ''file:///pet.json'', getText = ''{}''\<rparr>
         [''#/Pet''] ''#/Pet''],
      Inr (5,
           [(''file:///api.json'', [locate demoEnv ''file:///api.json'' mainDoc [''/info''] issueInfo]),
            (''file:///pet.json'',
             [locate demoEnv ''file:///pet.json''
                \<lparr>TextDocument.uri = ''file:///pet.json'', getText = ''{}''\<rparr> [''#/Pet'']
                (issuePet\<lparr>ReportedIssue.pointer := ''#/Pet''\<rparr>),
              locate demoEnv ''file:///pet.json''
                \<lparr>TextDocument.uri = ''file:///pet.json'', getText = ''{}''\<rparr> [''#/Pet'']
                (issuePet\<lparr>ReportedIssue.pointer := ''#/Pet''\<rparr>)])],
           [(''file:///api.json'', mainDoc),
            (''file:///pet.json'', \<lparr>TextDocument.uri = ''file:///pet.json'', getText = ''{}''\<rparr>)],
           [issueLost]))"
proof -
  let ?files = "[(''file:///api.json'', (mainDoc, [''/info''])),
       (''file:///pet.json'',
        (\<lparr>TextDocument.uri = ''file:///pet.json'', getText = ''{}''\<rparr>, [''#/Pet'']))]"
  have a: "audit demoEnv ''{}'' ''token'' = Inr (5, demoIssues)"
    by (simp add: demoEnv_def)
  have c: "collectDocuments ?files =
      [(''file:///api.json'', mainDoc),
       (''file:///pet.json'', \<lparr>TextDocument.uri = ''file:///pet.json'', getText = ''{}''\<rparr>)]"
    by (simp add: collectDocuments_def)
  show ?thesis
    by (simp add: auditDocument_def a demo_processIssues demo_loadDocuments demo_locateIssues c
          del: loadDocuments.simps locateIssues.simps)
qed





text \<open>
  C10. Whenever \<^verbatim>\<open>processIssues\<close> returns, the uri list it returns holds the main
  document's uri; it returns for every list of issues none of whose locations names a
  property inherited from \<^verbatim>\<open>Object.prototype\<close> (and throws a TypeError for the
  others), so in particular for the empty list, where the uri list is the main uri alone.
  The files table that \<^verbatim>\<open>auditDocument\<close> builds from it keeps the main document with
  its tree under that uri, and the documents a successful run returns hold the main
  document under it.
\<close>

theorem main_document_always_listed:
  "(processIssues env mainDocument mappings issues = Inr (root, uris, issuesPerDocument, badIssues) \<longrightarrow>
      TextDocument.uri mainDocument \<in> set uris) \<and>
   (if list_ex (inheritedKey env (TextDocument.uri mainDocument)
         (getLastGoodDocumentAst env mainDocument) mappings) issues
    then processIssues env mainDocument mappings issues = Inl TypeError
    else \<exists>uris issuesPerDocument badIssues.
      processIssues env mainDocument mappings issues =
        Inr (getLastGoodDocumentAst env mainDocument, uris, issuesPerDocument, badIssues) \<and>
      TextDocument.uri mainDocument \<in> set uris) \<and>
   processIssues env mainDocument mappings [] =
     Inr (getLastGoodDocumentAst env mainDocument, [TextDocument.uri mainDocument], [], []) \<and>
   (loadDocuments env documentUris [(TextDocument.uri mainDocument, (mainDocument, mainRoot))] [] =
      (calls, Inr files) \<longrightarrow>
    map_of files (TextDocument.uri mainDocument) = Some (mainDocument, mainRoot)) \<and>
   (auditDocument env mainDocument json mappings apiToken =
      (calls', Inr (grades, resolved, documents, bad)) \<longrightarrow>
    map_of documents (TextDocument.uri mainDocument) = Some mainDocument)"
proof (intro conjI impI)
  assume "processIssues env mainDocument mappings issues =
      Inr (root, uris, issuesPerDocument, badIssues)"
  from processIssues_keys [OF this] show "TextDocument.uri mainDocument \<in> set uris" by simp
next
  let ?m = "TextDocument.uri mainDocument" and ?root = "getLastGoodDocumentAst env mainDocument"
  show "if list_ex (inheritedKey env ?m ?root mappings) issues
    then processIssues env mainDocument mappings issues = Inl TypeError
    else \<exists>uris issuesPerDocument badIssues.
      processIssues env mainDocument mappings issues =
        Inr (?root, uris, issuesPerDocument, badIssues) \<and> ?m \<in> set uris"
  proof (cases "list_ex (inheritedKey env ?m ?root mappings) issues")
    case True
    from processLoop_returns [of "[]" env ?m ?root mappings issues "[(?m, True)]" "[]"] True
    have "processLoop env ?m ?root mappings ([(?m, True)], [], []) issues = Inl TypeError"
      by simp
    from processIssues_fails [OF this] True show ?thesis by simp
  next
    case False
    from processLoop_returns [of "[]" env ?m ?root mappings issues "[(?m, True)]" "[]"] False
    obtain du ipd bad' where run:
      "processLoop env ?m ?root mappings ([(?m, True)], [], []) issues = Inr (du, ipd, bad')"
      by auto
    from processLoop_uris [OF run] have "?m \<in> set (map fst du)" by auto
    with processIssues_eq [OF run] False show ?thesis by auto
  qed
next
  show "processIssues env mainDocument mappings [] =
     Inr (getLastGoodDocumentAst env mainDocument, [TextDocument.uri mainDocument], [], [])"
    by (simp add: processIssues_def Let_def)
next
  assume "loadDocuments env documentUris
      [(TextDocument.uri mainDocument, (mainDocument, mainRoot))] [] = (calls, Inr files)"
  from loadDocuments_files [OF this]
  show "map_of files (TextDocument.uri mainDocument) = Some (mainDocument, mainRoot)" by simp
next
  let ?m = "TextDocument.uri mainDocument" and ?root = "getLastGoodDocumentAst env mainDocument"
  assume "auditDocument env mainDocument json mappings apiToken =
      (calls', Inr (grades, resolved, documents, bad))"
  from auditDocument_success [OF this] obtain uris files calls0 where
    l: "loadDocuments env uris [(?m, (mainDocument, ?root))] [] = (calls0, Inr files)" and
    d: "documents = collectDocuments files"
    by blast
  from loadDocuments_files [OF l] have "distinct (map fst files)"
    "map_of files ?m = Some (mainDocument, ?root)" by simp_all
  with d show "map_of documents ?m = Some mainDocument"
    by (simp add: collectDocuments_lookup)
qed

theorem main_document_always_listed_witness:
  "TextDocument.uri mainDoc \<in> set [''file:///api.json'', ''file:///pet.json''] \<and>
   processIssues demoEnv mainDoc demoMappings [] =
     Inr (getLastGoodDocumentAst demoEnv mainDoc, [TextDocument.uri mainDoc], [], []) \<and>
   map_of [(''file:///api.json'', (mainDoc, [''/info''])),
           (''file:///pet.json'',
            (\<lparr>TextDocument.uri = ''file:///pet.json'', getText = ''{}''\<rparr>, [''#/Pet'']))]
     (TextDocument.uri mainDoc) = Some (mainDoc, [''/info'']) \<and>
   map_of [(''file:///api.json'', mainDoc),
           (''file:///pet.json'', \<lparr>TextDocument.uri = ''file:///pet.json'', getText = ''{}''\<rparr>)]
     (TextDocument.uri mainDoc) = Some mainDoc"
proof -
  note t = main_document_always_listed
    [where env = demoEnv and mainDocument = mainDoc and mappings = demoMappings
       and documentUris = "[''file:///api.json'', ''file:///pet.json'']"
       and mainRoot = "[''/info'']" and json = "''{}''" and apiToken = "''token''"]
  note t1 = t [where issues = demoIssues, unfolded demo_processIssues demo_loadDocuments
      demo_auditDocument]
  note t2 = t [where issues = "[]"]
  from t1 t2 show ?thesis by blast
qed

end
